theory Spec2Isabelle
  imports Main
begin

section \<open>Python strings\<close>

text \<open>
  A Python \<open>str\<close> is modelled as a HOL \<open>string\<close>; a \<open>char\<close> stands for the code point
  of the same number, so the model covers the code points U+0000 to U+00FF.
  \<open>isspace\<close> is the set of those code points that \<open>str.strip()\<close> removes: TAB to CR,
  FS to US, the space, NEL and the no-break space.
\<close>

definition isspace :: "char \<Rightarrow> bool" where
  "isspace c =
     (let n = (of_char c :: nat)
      in (9 \<le> n \<and> n \<le> 13) \<or> (28 \<le> n \<and> n \<le> 32) \<or> n = 133 \<or> n = 160)"

definition str_strip :: "string \<Rightarrow> string" where
  "str_strip s = rev (dropWhile isspace (rev (dropWhile isspace s)))"

definition lower_char :: "char \<Rightarrow> char" where
  "lower_char c =
     (let n = (of_char c :: nat)
      in if (65 \<le> n \<and> n \<le> 90) \<or> (192 \<le> n \<and> n \<le> 222 \<and> n \<noteq> 215)
         then char_of (n + 32) else c)"

definition str_lower :: "string \<Rightarrow> string" where
  "str_lower s = map lower_char s"

definition str_startswith :: "string \<Rightarrow> string \<Rightarrow> bool" where
  "str_startswith s prefix = (take (length prefix) s = prefix)"

text \<open>\<open>sep.join(parts)\<close>\<close>

fun str_join :: "string \<Rightarrow> string list \<Rightarrow> string" where
  "str_join sep [] = []"
| "str_join sep [x] = x"
| "str_join sep (x # y # ys) = x @ sep @ str_join sep (y # ys)"

text \<open>The separator \<open>'\n\n'\<close> of the final join.\<close>

definition blank_line :: string where
  "blank_line = [CHR 0x0A, CHR 0x0A]"

section \<open>Exceptions and the libraries the module calls\<close>

text \<open>
  An exception of class \<open>Exception\<close>, carried by the text \<open>str(e)\<close> that the handlers
  format. A call that may raise returns \<open>py_exception + 'a\<close>, \<open>Inl\<close> being the raise.
\<close>

datatype py_exception = Exception (str_e: string)

text \<open>
  An \<open>xml.etree.ElementTree.Element\<close>: tag, text before the first child (or \<open>None\<close>),
  children, and the tail after the element (or \<open>None\<close>).
\<close>

datatype element =
  Element (elem_tag: string) (elem_text: "string option")
          (elem_children: "element list") (elem_tail: "string option")

text \<open>
  What python-docx exposes of a document: its paragraphs, each by its \<open>.text\<close>, and its
  tables; a table has rows, a row has cells, each cell by its \<open>.text\<close>.
\<close>

record row =
  cells :: "string list"

record table =
  rows :: "row list"

record document =
  paragraphs :: "string list"
  tables :: "table list"

text \<open>
  An opened \<open>zipfile.ZipFile\<close>: \<open>namelist()\<close>, and for an entry name the outcome of
  \<open>open(name)\<close> followed by \<open>ET.parse(...).getroot()\<close>.
\<close>

record zip_archive =
  namelist :: "string list"
  open_parse :: "string \<Rightarrow> py_exception + element"

text \<open>
  The world outside the module, by path: \<open>os.stat\<close> (the size, or the raise),
  \<open>os.path.basename\<close>, \<open>os.path.splitext\<close>, python-docx's \<open>Document(path)\<close> and
  \<open>zipfile.ZipFile(path, 'r')\<close>. An exception that python-docx raises while the
  paragraphs, tables, rows and cells are read leaves the \<open>try\<close> block like one raised by
  \<open>Document(path)\<close> itself, the list built so far being local; both are the \<open>Inl\<close> of
  \<open>docx_Document\<close>. \<open>print_stdout\<close> is the \<open>print\<close> of the handler (line 49): it
  writes its argument to standard output and returns \<open>None\<close>, or raises, as it does with
  \<open>UnicodeEncodeError\<close> when the stream cannot encode the text. What it writes is not
  part of the value the method returns.
\<close>

record env =
  os_stat :: "string \<Rightarrow> py_exception + nat"
  os_path_basename :: "string \<Rightarrow> string"
  os_path_splitext :: "string \<Rightarrow> string \<times> string"
  docx_Document :: "string \<Rightarrow> py_exception + document"
  zipfile_ZipFile :: "string \<Rightarrow> py_exception + zip_archive"
  print_stdout :: "string \<Rightarrow> py_exception option"

section \<open>ElementTree traversals\<close>

text \<open>\<open>Element.itertext()\<close>: the text if truthy, then for each child its own
  \<open>itertext()\<close> followed by its tail if truthy.\<close>

definition truthy_str :: "string option \<Rightarrow> string list" where
  "truthy_str t = (case t of None \<Rightarrow> [] | Some s \<Rightarrow> (if s \<noteq> [] then [s] else []))"

fun itertext :: "element \<Rightarrow> string list" where
  "itertext (Element tg t cs ta) =
     truthy_str t @ concat (map (\<lambda>e. itertext e @ truthy_str (elem_tail e)) cs)"

text \<open>\<open>Element.iter()\<close>: the element, then its descendants in document order.\<close>

fun iter :: "element \<Rightarrow> element list" where
  "iter (Element tg t cs ta) = Element tg t cs ta # concat (map iter cs)"

text \<open>
  \<open>root.findall('.//w:p', namespaces)\<close>: the elements of \<open>root.iter(tag)\<close> other than
  \<open>root\<close> itself, \<open>tag\<close> being the prefix \<open>w\<close> resolved with the namespace table.
\<close>

definition w_p :: string where
  "w_p = ''{http://schemas.openxmlformats.org/wordprocessingml/2006/main}p''"

definition findall_w_p :: "element \<Rightarrow> element list" where
  "findall_w_p root = filter (\<lambda>e. elem_tag e = w_p) (concat (map iter (elem_children root)))"

section \<open>The structured path\<close>

text \<open>The loop over \<open>doc.paragraphs\<close> (lines 32-34).\<close>

fun paragraphs_loop :: "string list \<Rightarrow> string list \<Rightarrow> string list" where
  "paragraphs_loop [] text_parts = text_parts"
| "paragraphs_loop (p # ps) text_parts =
     paragraphs_loop ps
       (if str_strip p \<noteq> [] then text_parts @ [str_strip p] else text_parts)"

text \<open>The loop over \<open>row.cells\<close> (lines 40-42).\<close>

fun cells_loop :: "string list \<Rightarrow> string list \<Rightarrow> string list" where
  "cells_loop [] row_text = row_text"
| "cells_loop (c # cs) row_text =
     cells_loop cs (if str_strip c \<noteq> [] then row_text @ [str_strip c] else row_text)"

text \<open>The loop over \<open>table.rows\<close> (lines 38-44).\<close>

fun rows_loop :: "row list \<Rightarrow> string list \<Rightarrow> string list" where
  "rows_loop [] text_parts = text_parts"
| "rows_loop (r # rs) text_parts =
     (let row_text = cells_loop (cells r) []
      in rows_loop rs
           (if row_text \<noteq> [] then text_parts @ [str_join '' | '' row_text] else text_parts))"

text \<open>The loop over \<open>doc.tables\<close> (lines 37-44).\<close>

fun tables_loop :: "table list \<Rightarrow> string list \<Rightarrow> string list" where
  "tables_loop [] text_parts = text_parts"
| "tables_loop (t # ts) text_parts = tables_loop ts (rows_loop (rows t) text_parts)"

text \<open>The body of the \<open>try\<close> of \<open>extract_docx_content\<close> (lines 27-46).\<close>

definition structured_text :: "document \<Rightarrow> string" where
  "structured_text doc =
     str_join blank_line (tables_loop (tables doc) (paragraphs_loop (paragraphs doc) []))"

definition extract_docx_content_try :: "env \<Rightarrow> string \<Rightarrow> py_exception + string" where
  "extract_docx_content_try e file_path =
     (case docx_Document e file_path of
        Inl ex \<Rightarrow> Inl ex
      | Inr doc \<Rightarrow> Inr (structured_text doc))"

section \<open>The fallback path\<close>

text \<open>Tier 1: the loop over the paragraph elements (lines 97-100).\<close>

fun para_loop :: "element list \<Rightarrow> string list \<Rightarrow> string list" where
  "para_loop [] text_parts = text_parts"
| "para_loop (para # paras) text_parts =
     (let para_text = concat (itertext para)
      in para_loop paras
           (if str_strip para_text \<noteq> [] then text_parts @ [str_strip para_text]
            else text_parts))"

definition tier1 :: "element \<Rightarrow> string list" where
  "tier1 root = para_loop (findall_w_p root) []"

text \<open>Tier 2: all text under the root (lines 103-106).\<close>

definition tier2 :: "element \<Rightarrow> string list \<Rightarrow> string list" where
  "tier2 root text_parts =
     (if text_parts = []
      then (let all_text = concat (itertext root)
            in if str_strip all_text \<noteq> [] then [str_strip all_text] else text_parts)
      else text_parts)"

text \<open>Tier 3: the walk over \<open>root.iter()\<close> (lines 109-115). \<open>x and x.strip()\<close> is
  truthy when \<open>x\<close> is a string whose strip is not empty.\<close>

definition strip_if_text :: "string option \<Rightarrow> string list" where
  "strip_if_text t =
     (case t of None \<Rightarrow> []
      | Some s \<Rightarrow> (if s \<noteq> [] \<and> str_strip s \<noteq> [] then [str_strip s] else []))"

fun iter_loop :: "element list \<Rightarrow> string list \<Rightarrow> string list" where
  "iter_loop [] text_parts = text_parts"
| "iter_loop (elem # elems) text_parts =
     iter_loop elems
       ((text_parts @ strip_if_text (elem_text elem)) @ strip_if_text (elem_tail elem))"

definition tier3 :: "element \<Rightarrow> string list \<Rightarrow> string list" where
  "tier3 root text_parts =
     (if text_parts = [] then iter_loop (iter root) text_parts else text_parts)"

definition extract_formatted_text :: "element \<Rightarrow> string" where
  "extract_formatted_text root = str_join blank_line (tier3 root (tier2 root (tier1 root)))"

text \<open>The body of the \<open>try\<close> of \<open>_extract_docx_manual\<close> (lines 64-72).\<close>

definition extract_docx_manual_try :: "env \<Rightarrow> string \<Rightarrow> py_exception + string" where
  "extract_docx_manual_try e file_path =
     (case zipfile_ZipFile e file_path of
        Inl ex \<Rightarrow> Inl ex
      | Inr docx_zip \<Rightarrow>
          (if ''word/document.xml'' \<in> set (namelist docx_zip)
           then (case open_parse docx_zip ''word/document.xml'' of
                   Inl ex \<Rightarrow> Inl ex
                 | Inr root \<Rightarrow> Inr (extract_formatted_text root))
           else Inr ''Error: Could not find document.xml in DOCX file''))"

text \<open>\<open>_extract_docx_manual\<close>: the \<open>try\<close> with its handler (lines 63-75).\<close>

definition extract_docx_manual :: "env \<Rightarrow> string \<Rightarrow> py_exception + string" where
  "extract_docx_manual e file_path =
     (case extract_docx_manual_try e file_path of
        Inr s \<Rightarrow> Inr s
      | Inl ex \<Rightarrow> Inr (''Error extracting DOCX content: '' @ str_e ex))"

text \<open>\<open>DocumentProcessor.extract_docx_content\<close>: the \<open>try\<close> with its handler
  (lines 25-51). The handler first prints the message of line 49 and then calls the
  fallback; nothing guards the \<open>print\<close>, so an exception it raises leaves the method.\<close>

definition extract_docx_content :: "env \<Rightarrow> string \<Rightarrow> py_exception + string" where
  "extract_docx_content e file_path =
     (case extract_docx_content_try e file_path of
        Inr s \<Rightarrow> Inr s
      | Inl ex \<Rightarrow>
          (case print_stdout e
                  (''Error extracting DOCX content with python-docx: '' @ str_e ex) of
             Some print_ex \<Rightarrow> Inl print_ex
           | None \<Rightarrow> extract_docx_manual e file_path))"

section \<open>Metadata and the orchestrator\<close>

datatype pyval = PyStr string | PyInt int | PyBool bool

type_synonym metadata = "string \<rightharpoonup> pyval"

definition get_document_metadata :: "env \<Rightarrow> string \<Rightarrow> metadata" where
  "get_document_metadata e file_path =
     (case os_stat e file_path of
        Inr st_size \<Rightarrow>
          [''file_path'' \<mapsto> PyStr file_path,
           ''file_name'' \<mapsto> PyStr (os_path_basename e file_path),
           ''file_size'' \<mapsto> PyInt (int st_size),
           ''content_length'' \<mapsto> PyInt 0,
           ''extraction_success'' \<mapsto> PyBool False]
      | Inl ex \<Rightarrow> [''error'' \<mapsto> PyStr (''Could not get metadata: '' @ str_e ex)])"

definition process_document :: "env \<Rightarrow> string \<Rightarrow> py_exception + (string \<times> metadata)" where
  "process_document e file_path =
     (let metadata = get_document_metadata e file_path
      in if metadata ''error'' \<noteq> None then Inr ('''', metadata)
         else
           (let file_ext = str_lower (snd (os_path_splitext e file_path))
            in case (if file_ext = ''.docx'' then extract_docx_content e file_path
                     else Inr (''Unsupported file format: '' @ file_ext)) of
                 Inl ex \<Rightarrow> Inl ex
               | Inr content \<Rightarrow>
                   Inr (content,
                        metadata(''content_length'' \<mapsto> PyInt (int (length content)),
                                 ''extraction_success'' \<mapsto>
                                   PyBool (length content > 0
                                         \<and> \<not> str_startswith content ''Error'')))))"

section \<open>The structured output as the specification words it\<close>

text \<open>
  The trimmed texts of the entries that are not empty after trimming; one item per table
  row that has such a cell, its trimmed cells joined by \<open>' | '\<close>; all paragraphs first,
  then the rows of the tables.
\<close>

definition trimmed_nonempty :: "string list \<Rightarrow> string list" where
  "trimmed_nonempty xs = map str_strip (filter (\<lambda>x. str_strip x \<noteq> []) xs)"

definition spec_row_items :: "row \<Rightarrow> string list" where
  "spec_row_items r =
     (if trimmed_nonempty (cells r) = [] then []
      else [str_join '' | '' (trimmed_nonempty (cells r))])"

definition spec_items :: "document \<Rightarrow> string list" where
  "spec_items doc =
     trimmed_nonempty (paragraphs doc)
     @ concat (map (\<lambda>t. concat (map spec_row_items (rows t))) (tables doc))"

section \<open>Concrete inputs\<close>

text \<open>An archive with a single entry that is not the main markup.\<close>

definition archive_without_markup :: zip_archive where
  "archive_without_markup =
     \<lparr>namelist = [''[Content_Types].xml''],
      open_parse = (\<lambda>n. Inl (Exception ''There is no item named in the archive''))\<rparr>"

text \<open>A file that python-docx rejects and that opens as the archive above.\<close>

definition env_no_markup :: env where
  "env_no_markup =
     \<lparr>os_stat = (\<lambda>p. Inr 22),
      os_path_basename = (\<lambda>p. p),
      os_path_splitext = (\<lambda>p. (''broken'', ''.docx'')),
      docx_Document = (\<lambda>p. Inl (Exception ''Package not found'')),
      zipfile_ZipFile = (\<lambda>p. Inr archive_without_markup),
      print_stdout = (\<lambda>s. None)\<rparr>"

text \<open>
  A file name with the letter U+00E9 in it, a file that neither python-docx nor
  \<open>zipfile\<close> can open (python-docx names the path in its message), and a standard output
  that encodes ASCII only: \<open>print\<close> raises on any other character.
\<close>

definition resume_docx :: string where
  "resume_docx = ''r'' @ [CHR 0xE9] @ ''sum'' @ [CHR 0xE9] @ ''.docx''"

definition ascii_print :: "string \<Rightarrow> py_exception option" where
  "ascii_print s =
     (if list_all (\<lambda>c. (of_char c :: nat) < 128) s then None
      else Some (Exception ''ascii codec cannot encode character: ordinal not in range(128)''))"

definition env_ascii_stdout :: env where
  "env_ascii_stdout =
     \<lparr>os_stat = (\<lambda>p. Inr 11),
      os_path_basename = (\<lambda>p. p),
      os_path_splitext = (\<lambda>p. (''r'' @ [CHR 0xE9] @ ''sum'' @ [CHR 0xE9], ''.docx'')),
      docx_Document = (\<lambda>p. Inl (Exception (''Package not found at '' @ p))),
      zipfile_ZipFile = (\<lambda>p. Inl (Exception ''File is not a zip file'')),
      print_stdout = ascii_print\<rparr>"

text \<open>Two paragraphs and one table of two rows and two columns.\<close>

definition example_doc :: document where
  "example_doc =
     \<lparr>paragraphs = [''Para1'', ''Para2''],
      tables = [\<lparr>rows = [\<lparr>cells = [''A'', ''B'']\<rparr>, \<lparr>cells = [''C'', ''D'']\<rparr>]\<rparr>]\<rparr>"

definition env_example :: env where
  "env_example =
     \<lparr>os_stat = (\<lambda>p. Inr 4096),
      os_path_basename = (\<lambda>p. p),
      os_path_splitext = (\<lambda>p. (''example'', ''.docx'')),
      docx_Document = (\<lambda>p. Inr example_doc),
      zipfile_ZipFile = (\<lambda>p. Inl (Exception ''not read'')),
      print_stdout = (\<lambda>s. None)\<rparr>"

text \<open>Markup trees: text at the root and a blank paragraph; only white space.\<close>

definition tree_root_text :: element where
  "tree_root_text =
     Element ''document'' (Some ''  hello world '')
       [Element w_p (Some '' '') [] None, Element ''body'' None [] (Some ''!'')] None"

definition tree_blank :: element where
  "tree_blank =
     Element ''document'' (Some '' '')
       [Element w_p None [Element ''r'' (Some [CHR 0x09]) [] None] (Some [CHR 0x0A])] None"

text \<open>A path whose stats cannot be read, and a legacy \<open>.DOC\<close> file that exists.\<close>

definition env_missing :: env where
  "env_missing =
     \<lparr>os_stat = (\<lambda>p. Inl (Exception ''[Errno 2] No such file or directory'')),
      os_path_basename = (\<lambda>p. p),
      os_path_splitext = (\<lambda>p. (''missing'', ''.doc'')),
      docx_Document = (\<lambda>p. Inl (Exception ''Package not found'')),
      zipfile_ZipFile = (\<lambda>p. Inl (Exception ''[Errno 2] No such file or directory'')),
      print_stdout = (\<lambda>s. None)\<rparr>"

definition env_doc :: env where
  "env_doc =
     \<lparr>os_stat = (\<lambda>p. Inr 1024),
      os_path_basename = (\<lambda>p. p),
      os_path_splitext = (\<lambda>p. (''report'', ''.DOC'')),
      docx_Document = (\<lambda>p. Inl (Exception ''Package not found'')),
      zipfile_ZipFile = (\<lambda>p. Inl (Exception ''File is not a zip file'')),
      print_stdout = (\<lambda>s. None)\<rparr>"

text \<open>A paragraph element with nothing but white space in it.\<close>

definition blank_para :: element where
  "blank_para = Element w_p (Some '' '') [Element ''r'' None [] (Some [CHR 0x09])] None"

section \<open>Auxiliary facts\<close>

subsection \<open>Stripping\<close>

lemma all_dropWhile_iff: "(\<forall>x\<in>set (dropWhile P s). P x) \<longleftrightarrow> (\<forall>x\<in>set s. P x)"
  by (induction s) auto

lemma str_strip_empty_iff: "str_strip s = [] \<longleftrightarrow> (\<forall>c\<in>set s. isspace c)"
  by (simp add: str_strip_def dropWhile_eq_Nil_conv all_dropWhile_iff)

lemma str_strip_concat_empty_iff:
  "str_strip (concat xs) = [] \<longleftrightarrow> (\<forall>x\<in>set xs. str_strip x = [])"
  by (auto simp: str_strip_empty_iff)

lemma strip_if_text_blank:
  "(\<And>s. t = Some s \<Longrightarrow> s \<noteq> [] \<Longrightarrow> str_strip s = []) \<Longrightarrow> strip_if_text t = []"
  by (cases t) (auto simp: strip_if_text_def)

subsection \<open>The loops as maps and filters\<close>

lemma paragraphs_loop_filter:
  "paragraphs_loop ps acc = acc @ map str_strip (filter (\<lambda>p. str_strip p \<noteq> []) ps)"
  by (induction ps arbitrary: acc) auto

lemma cells_loop_filter:
  "cells_loop cs acc = acc @ map str_strip (filter (\<lambda>c. str_strip c \<noteq> []) cs)"
  by (induction cs arbitrary: acc) auto

lemma rows_loop_spec: "rows_loop rs acc = acc @ concat (map spec_row_items rs)"
  by (induction rs arbitrary: acc)
     (auto simp: Let_def spec_row_items_def trimmed_nonempty_def cells_loop_filter)

lemma tables_loop_spec:
  "tables_loop ts acc = acc @ concat (map (\<lambda>t. concat (map spec_row_items (rows t))) ts)"
  by (induction ts arbitrary: acc) (auto simp: rows_loop_spec)

lemma structured_text_spec: "structured_text doc = str_join blank_line (spec_items doc)"
  by (simp add: structured_text_def spec_items_def tables_loop_spec paragraphs_loop_filter
      trimmed_nonempty_def)

lemma para_loop_filter:
  "para_loop es acc =
     acc @ map str_strip (filter (\<lambda>s. str_strip s \<noteq> []) (map (\<lambda>e. concat (itertext e)) es))"
  by (induction es arbitrary: acc) (auto simp: Let_def)

lemma iter_loop_concat:
  "iter_loop es acc =
     acc @ concat (map (\<lambda>e. strip_if_text (elem_text e) @ strip_if_text (elem_tail e)) es)"
  by (induction es arbitrary: acc) auto

lemma concat_map_all_empty: "(\<And>x. x \<in> set xs \<Longrightarrow> f x = []) \<Longrightarrow> concat (map f xs) = []"
  by (induction xs) auto

subsection \<open>What \<open>itertext\<close> reaches\<close>

text \<open>
  \<open>itertext\<close> of the root yields every text of the tree and the tail of every element
  other than the root. So when tiers 1 and 2 collect nothing, all of these are blank, and
  the walk of tier 3 can collect the root's own tail only.
\<close>

lemma iter_unfold: "iter e = e # concat (map iter (elem_children e))"
  by (cases e) simp

lemma text_in_itertext:
  "e \<in> set (iter root) \<Longrightarrow> elem_text e = Some t \<Longrightarrow> t \<noteq> [] \<Longrightarrow> t \<in> set (itertext root)"
proof (induction root arbitrary: e t)
  case (Element tg tx cs ta)
  then show ?case
    by (auto simp: truthy_str_def)
qed

lemma tail_in_itertext:
  "e \<in> set (concat (map iter (elem_children root))) \<Longrightarrow> elem_tail e = Some t \<Longrightarrow> t \<noteq> []
     \<Longrightarrow> t \<in> set (itertext root)"
proof (induction root arbitrary: e t)
  case (Element tg tx cs ta)
  from Element.prems(1) obtain c where c: "c \<in> set cs" "e \<in> set (iter c)" by auto
  show ?case
  proof (cases "e = c")
    case True
    with Element.prems(2,3) have "t \<in> set (itertext c @ truthy_str (elem_tail c))"
      by (simp add: truthy_str_def)
    with c(1) show ?thesis by auto
  next
    case False
    with c(2) have "e \<in> set (concat (map iter (elem_children c)))"
      by (subst (asm) iter_unfold) simp
    from Element.IH [OF c(1) this Element.prems(2,3)] c(1) show ?thesis by auto
  qed
qed

lemma tier2_empty_iff:
  "tier2 root text_parts = [] \<longleftrightarrow> text_parts = [] \<and> str_strip (concat (itertext root)) = []"
  by (auto simp: tier2_def Let_def)

lemma blank_tree_texts:
  assumes "str_strip (concat (itertext root)) = []"
  shows "\<forall>e\<in>set (iter root). strip_if_text (elem_text e) = []"
    and "\<forall>e\<in>set (concat (map iter (elem_children root))). strip_if_text (elem_tail e) = []"
proof -
  from assms have blank: "\<And>s. s \<in> set (itertext root) \<Longrightarrow> str_strip s = []"
    by (simp add: str_strip_concat_empty_iff)
  show "\<forall>e\<in>set (iter root). strip_if_text (elem_text e) = []"
  proof
    fix e assume "e \<in> set (iter root)"
    then show "strip_if_text (elem_text e) = []"
      by (intro strip_if_text_blank blank text_in_itertext)
  qed
  show "\<forall>e\<in>set (concat (map iter (elem_children root))). strip_if_text (elem_tail e) = []"
  proof
    fix e assume "e \<in> set (concat (map iter (elem_children root)))"
    then show "strip_if_text (elem_tail e) = []"
      by (intro strip_if_text_blank blank tail_in_itertext)
  qed
qed

lemma tiers_empty_nonroot_tails_blank:
  assumes "tier2 root (tier1 root) = []"
    and "e \<in> set (concat (map iter (elem_children root)))"
  shows "strip_if_text (elem_tail e) = []"
proof -
  from assms(1) have "str_strip (concat (itertext root)) = []"
    by (simp add: tier2_empty_iff)
  from blank_tree_texts(2) [OF this] assms(2) show ?thesis by blast
qed

lemma tier3_blank_tree:
  assumes "str_strip (concat (itertext root)) = []"
  shows "tier3 root [] = strip_if_text (elem_tail root)"
proof -
  let ?f = "\<lambda>e. strip_if_text (elem_text e) @ strip_if_text (elem_tail e)"
  have root_text: "strip_if_text (elem_text root) = []"
    using blank_tree_texts(1) [OF assms] by (subst (asm) iter_unfold) simp
  have "concat (map ?f (concat (map iter (elem_children root)))) = []"
  proof (rule concat_map_all_empty)
    fix e assume e: "e \<in> set (concat (map iter (elem_children root)))"
    then have "e \<in> set (iter root)" by (subst iter_unfold) simp
    with blank_tree_texts(1) [OF assms] have "strip_if_text (elem_text e) = []" by blast
    moreover from e blank_tree_texts(2) [OF assms] have "strip_if_text (elem_tail e) = []"
      by blast
    ultimately show "?f e = []" by simp
  qed
  then have "concat (map ?f (iter root)) = strip_if_text (elem_tail root)"
    using root_text by (subst iter_unfold) simp
  then show ?thesis by (simp add: tier3_def iter_loop_concat)
qed

subsection \<open>What the handlers catch\<close>

text \<open>
  The fallback answers every raise of its \<open>try\<close> with a string. The structured method
  returns a string when its \<open>try\<close> succeeds, and when its \<open>try\<close> raises and the \<open>print\<close>
  of the handler succeeds; then the value is the fallback's.
\<close>

lemma extract_docx_manual_returns: "\<exists>s. extract_docx_manual e file_path = Inr s"
  by (cases "extract_docx_manual_try e file_path") (simp_all add: extract_docx_manual_def)

lemma extract_docx_manual_caught:
  "extract_docx_manual_try e file_path = Inl ex \<Longrightarrow>
     extract_docx_manual e file_path = Inr (''Error extracting DOCX content: '' @ str_e ex)"
  by (simp add: extract_docx_manual_def)

lemma extract_docx_content_fallback:
  "extract_docx_content_try e file_path = Inl ex \<Longrightarrow>
   print_stdout e (''Error extracting DOCX content with python-docx: '' @ str_e ex) = None \<Longrightarrow>
     extract_docx_content e file_path = extract_docx_manual e file_path"
  by (simp add: extract_docx_content_def)

lemma extract_docx_content_print_raises:
  "extract_docx_content_try e file_path = Inl ex \<Longrightarrow>
   print_stdout e (''Error extracting DOCX content with python-docx: '' @ str_e ex)
     = Some print_ex \<Longrightarrow>
     extract_docx_content e file_path = Inl print_ex"
  by (simp add: extract_docx_content_def)

section \<open>Properties\<close>

text \<open>
  C1, as the code has it. \<open>process_document\<close> first collects the metadata and returns
  the empty content when \<open>os.stat\<close> raises. On a path whose stats can be read and whose
  lower-cased extension is not \<open>.docx\<close> (\<open>.doc\<close> included) the content is
  \<open>Unsupported file format: \<close> followed by that extension, no \<open>error\<close> key is set and
  \<open>content_length\<close> is the length of the content.
\<close>

theorem unsupported_format_content:
  assumes "os_stat e file_path = Inr st_size"
    and "str_lower (snd (os_path_splitext e file_path)) \<noteq> ''.docx''"
  shows "\<exists>metadata.
           process_document e file_path =
             Inr (''Unsupported file format: '' @ str_lower (snd (os_path_splitext e file_path)),
                  metadata)
           \<and> metadata ''error'' = None
           \<and> metadata ''content_length'' =
               Some (PyInt (int (length (''Unsupported file format: ''
                                          @ str_lower (snd (os_path_splitext e file_path))))))"
proof -
  have "get_document_metadata e file_path ''error'' = None"
    using assms(1) by (simp add: get_document_metadata_def)
  then show ?thesis
    using assms(2) by (simp add: process_document_def Let_def)
qed

theorem unsupported_format_content_witness:
  "os_stat env_doc ''report.DOC'' = Inr 1024
   \<and> str_lower (snd (os_path_splitext env_doc ''report.DOC'')) \<noteq> ''.docx''
   \<and> (\<exists>metadata. process_document env_doc ''report.DOC'' =
                     Inr (''Unsupported file format: .doc'', metadata)
                   \<and> metadata ''content_length'' = Some (PyInt 29))"
proof -
  have a: "os_stat env_doc ''report.DOC'' = Inr 1024"
    by (simp add: env_doc_def)
  have l: "str_lower (snd (os_path_splitext env_doc ''report.DOC'')) = ''.doc''"
    by (simp add: env_doc_def str_lower_def lower_char_def char_of_def bit_Suc_0_iff)
  have b: "str_lower (snd (os_path_splitext env_doc ''report.DOC'')) \<noteq> ''.docx''"
    by (simp add: l)
  from unsupported_format_content [OF a b] a b l show ?thesis by auto
qed

text \<open>
  Two concrete runs on paths with the extension \<open>.doc\<close>. Where \<open>os.stat\<close> raises, the
  content is empty and the metadata holds only \<open>error\<close>. Where the file exists, the content
  is \<open>Unsupported file format: .doc\<close>, which is not empty and does not start with
  \<open>Error\<close>, so line 168 stores \<open>True\<close> under \<open>extraction_success\<close>.
\<close>

theorem unsupported_format_counterexample:
  "str_lower (snd (os_path_splitext env_missing ''missing.doc'')) = ''.doc''
   \<and> process_document env_missing ''missing.doc'' =
       Inr ('''', [''error'' \<mapsto>
                   PyStr ''Could not get metadata: [Errno 2] No such file or directory''])
   \<and> str_lower (snd (os_path_splitext env_doc ''report.DOC'')) = ''.doc''
   \<and> map_sum id (\<lambda>(content, metadata). (content, metadata ''extraction_success''))
         (process_document env_doc ''report.DOC'') =
       Inr (''Unsupported file format: .doc'', Some (PyBool True))"
  by (simp add: process_document_def get_document_metadata_def env_missing_def env_doc_def
      str_lower_def lower_char_def str_startswith_def char_of_def bit_Suc_0_iff)

text \<open>
  C2. When the archive opens and its name list has no entry \<open>word/document.xml\<close>, the
  fallback extractor returns exactly
  \<open>Error: Could not find document.xml in DOCX file\<close>: no entry is opened or parsed.
\<close>

theorem missing_markup_sentinel:
  assumes "zipfile_ZipFile e file_path = Inr docx_zip"
    and "''word/document.xml'' \<notin> set (namelist docx_zip)"
  shows "extract_docx_manual e file_path =
           Inr ''Error: Could not find document.xml in DOCX file''"
  using assms by (simp add: extract_docx_manual_def extract_docx_manual_try_def)

theorem missing_markup_sentinel_witness:
  "zipfile_ZipFile env_no_markup ''broken.docx'' = Inr archive_without_markup
   \<and> ''word/document.xml'' \<notin> set (namelist archive_without_markup)
   \<and> extract_docx_manual env_no_markup ''broken.docx'' =
       Inr ''Error: Could not find document.xml in DOCX file''"
proof -
  have a: "zipfile_ZipFile env_no_markup ''broken.docx'' = Inr archive_without_markup"
    by (simp add: env_no_markup_def)
  have b: "''word/document.xml'' \<notin> set (namelist archive_without_markup)"
    by (simp add: archive_without_markup_def)
  show ?thesis using a b missing_markup_sentinel [OF a b] by simp
qed

text \<open>
  C3 on a concrete run. python-docx cannot open the file, so the handler of
  \<open>extract_docx_content\<close> is entered; its \<open>print\<close> (line 49) is given a message with the
  file name in it and raises on a standard output that cannot encode it; that exception
  leaves \<open>extract_docx_content\<close>, and the fallback, which on its own would have answered
  with an error string, is never called.
\<close>

theorem print_failure_propagates:
  "extract_docx_content_try env_ascii_stdout resume_docx =
     Inl (Exception (''Package not found at '' @ resume_docx))
   \<and> print_stdout env_ascii_stdout
         (''Error extracting DOCX content with python-docx: ''
          @ ''Package not found at '' @ resume_docx) =
       Some (Exception ''ascii codec cannot encode character: ordinal not in range(128)'')
   \<and> extract_docx_content env_ascii_stdout resume_docx =
       Inl (Exception ''ascii codec cannot encode character: ordinal not in range(128)'')
   \<and> extract_docx_manual env_ascii_stdout resume_docx =
       Inr ''Error extracting DOCX content: File is not a zip file''"
proof -
  have a: "extract_docx_content_try env_ascii_stdout resume_docx =
     Inl (Exception (''Package not found at '' @ resume_docx))"
    by (simp add: extract_docx_content_try_def env_ascii_stdout_def)
  have b: "print_stdout env_ascii_stdout
         (''Error extracting DOCX content with python-docx: ''
          @ ''Package not found at '' @ resume_docx) =
       Some (Exception ''ascii codec cannot encode character: ordinal not in range(128)'')"
    by (simp add: env_ascii_stdout_def ascii_print_def resume_docx_def)
  have c: "extract_docx_manual env_ascii_stdout resume_docx =
       Inr ''Error extracting DOCX content: File is not a zip file''"
    by (simp add: extract_docx_manual_def extract_docx_manual_try_def env_ascii_stdout_def)
  from a b c show ?thesis by (simp add: extract_docx_content_def)
qed

text \<open>
  C4. When python-docx reads the document, the output is the items of \<open>spec_items\<close>
  joined by \<open>'\n\n'\<close>: the trimmed non-empty paragraph texts, all paragraphs first and in
  order, then for each table row with a non-empty cell its trimmed non-empty cell texts
  joined by \<open>' | '\<close>. For the paragraphs Para1, Para2 and the table A, B / C, D this is
  \<open>Para1\n\nPara2\n\nA | B\n\nC | D\<close>.
\<close>

theorem structured_output_format:
  "(docx_Document e file_path = Inr doc \<longrightarrow>
      extract_docx_content e file_path = Inr (str_join blank_line (spec_items doc)))
   \<and> structured_text example_doc =
       ''Para1'' @ blank_line @ ''Para2'' @ blank_line @ ''A | B'' @ blank_line @ ''C | D''"
proof
  show "docx_Document e file_path = Inr doc \<longrightarrow>
      extract_docx_content e file_path = Inr (str_join blank_line (spec_items doc))"
    by (simp add: extract_docx_content_def extract_docx_content_try_def structured_text_spec)
  show "structured_text example_doc =
       ''Para1'' @ blank_line @ ''Para2'' @ blank_line @ ''A | B'' @ blank_line @ ''C | D''"
    by (simp add: structured_text_def example_doc_def str_strip_def isspace_def)
qed

theorem structured_output_format_witness:
  "docx_Document env_example ''example.docx'' = Inr example_doc
   \<and> extract_docx_content env_example ''example.docx'' =
       Inr (''Para1'' @ blank_line @ ''Para2'' @ blank_line @ ''A | B'' @ blank_line @ ''C | D'')"
proof -
  have d: "docx_Document env_example ''example.docx'' = Inr example_doc"
    by (simp add: env_example_def)
  have s: "spec_items example_doc = [''Para1'', ''Para2'', ''A | B'', ''C | D'']"
    by (simp add: spec_items_def spec_row_items_def trimmed_nonempty_def example_doc_def
        str_strip_def isspace_def)
  from structured_output_format [of env_example "''example.docx''" example_doc] d s
  show ?thesis by simp
qed

text \<open>
  C5. When no paragraph element found by tier 1 has text left after trimming, and the
  concatenation of all text under the root is not white space only, the item list is that
  concatenation trimmed, alone, and it is what \<open>_extract_formatted_text\<close> returns.
\<close>

theorem tier2_whole_tree_text:
  assumes "\<forall>para\<in>set (findall_w_p root). str_strip (concat (itertext para)) = []"
    and "str_strip (concat (itertext root)) \<noteq> []"
  shows "tier3 root (tier2 root (tier1 root)) = [str_strip (concat (itertext root))]
         \<and> extract_formatted_text root = str_strip (concat (itertext root))"
proof -
  have "tier1 root = []"
    using assms(1) by (simp add: tier1_def para_loop_filter filter_empty_conv)
  then show ?thesis
    using assms(2) by (simp add: extract_formatted_text_def tier2_def tier3_def)
qed

theorem tier2_whole_tree_text_witness:
  "map (\<lambda>para. str_strip (concat (itertext para))) (findall_w_p tree_root_text) = [[]]
   \<and> str_strip (concat (itertext tree_root_text)) \<noteq> []
   \<and> extract_formatted_text tree_root_text = ''hello world  !''"
proof -
  have f: "findall_w_p tree_root_text = [Element w_p (Some '' '') [] None]"
    by (simp add: tree_root_text_def findall_w_p_def w_p_def)
  have s: "str_strip (concat (itertext (Element w_p (Some '' '') [] None))) = []"
    by (simp add: truthy_str_def str_strip_def isspace_def)
  have a: "\<forall>para\<in>set (findall_w_p tree_root_text). str_strip (concat (itertext para)) = []"
    using s by (simp add: f)
  have b: "str_strip (concat (itertext tree_root_text)) = ''hello world  !''"
    by (simp add: tree_root_text_def truthy_str_def str_strip_def isspace_def)
  from tier2_whole_tree_text [OF a] b f s show ?thesis by simp
qed

text \<open>
  C7. An entry \<open>w\<close> that is empty or white space only adds no item at any tier: a
  paragraph \<open>w\<close> leaves the structured output as it is without it; so does a cell \<open>w\<close> in
  a row; a paragraph element whose text is blank adds nothing in tier 1; a tree whose whole
  text is blank gives no item in tier 2; an element's text \<open>w\<close> or tail \<open>w\<close> counts in tier
  3 like an absent one.
\<close>

theorem whitespace_only_contributes_nothing:
  assumes w: "str_strip w = []"
    and el: "str_strip (concat (itertext el)) = []"
  shows "structured_text (doc\<lparr>paragraphs := ps @ w # qs\<rparr>) =
           structured_text (doc\<lparr>paragraphs := ps @ qs\<rparr>)
         \<and> rows_loop (rs @ \<lparr>cells = cs @ w # ds\<rparr> # rs') text_parts =
             rows_loop (rs @ \<lparr>cells = cs @ ds\<rparr> # rs') text_parts
         \<and> para_loop (es @ el # fs) text_parts = para_loop (es @ fs) text_parts
         \<and> tier2 el [] = []
         \<and> iter_loop (es @ Element tg (Some w) es' ta # fs) text_parts =
             iter_loop (es @ Element tg None es' ta # fs) text_parts
         \<and> iter_loop (es @ Element tg tx es' (Some w) # fs) text_parts =
             iter_loop (es @ Element tg tx es' None # fs) text_parts"
proof -
  have 1: "structured_text (doc\<lparr>paragraphs := ps @ w # qs\<rparr>) =
           structured_text (doc\<lparr>paragraphs := ps @ qs\<rparr>)"
    using w by (simp add: structured_text_def paragraphs_loop_filter)
  have 2: "rows_loop (rs @ \<lparr>cells = cs @ w # ds\<rparr> # rs') text_parts =
             rows_loop (rs @ \<lparr>cells = cs @ ds\<rparr> # rs') text_parts"
    using w by (simp add: rows_loop_spec spec_row_items_def trimmed_nonempty_def)
  have 3: "para_loop (es @ el # fs) text_parts = para_loop (es @ fs) text_parts"
    using el by (simp add: para_loop_filter)
  have 4: "tier2 el [] = []"
    using el by (simp add: tier2_def)
  have 5: "iter_loop (es @ Element tg (Some w) es' ta # fs) text_parts =
             iter_loop (es @ Element tg None es' ta # fs) text_parts"
    using w by (simp add: iter_loop_concat strip_if_text_def)
  have 6: "iter_loop (es @ Element tg tx es' (Some w) # fs) text_parts =
             iter_loop (es @ Element tg tx es' None # fs) text_parts"
    using w by (simp add: iter_loop_concat strip_if_text_def)
  from 1 2 3 4 5 6 show ?thesis by simp
qed

theorem whitespace_only_contributes_nothing_witness:
  "str_strip [CHR 0x20, CHR 0x09] = []
   \<and> str_strip (concat (itertext blank_para)) = []
   \<and> structured_text \<lparr>paragraphs = [''a''] @ [CHR 0x20, CHR 0x09] # [''b''], tables = []\<rparr> =
       ''a'' @ blank_line @ ''b''
   \<and> rows_loop ([] @ \<lparr>cells = [''x''] @ [CHR 0x20, CHR 0x09] # [''y'']\<rparr> # []) [] = [''x | y'']
   \<and> para_loop ([] @ blank_para # []) [] = []
   \<and> tier2 blank_para [] = []
   \<and> iter_loop ([] @ Element ''t'' (Some [CHR 0x20, CHR 0x09]) [] (Some ''z'') # []) [] = [''z'']
   \<and> iter_loop ([] @ Element ''t'' (Some ''z'') [] (Some [CHR 0x20, CHR 0x09]) # []) [] = [''z'']"
proof -
  have a: "str_strip [CHR 0x20, CHR 0x09] = []"
    by (simp add: str_strip_def isspace_def)
  have b: "str_strip (concat (itertext blank_para)) = []"
    by (simp add: blank_para_def truthy_str_def str_strip_def isspace_def)
  have c: "str_strip ''a'' = ''a''" "str_strip ''b'' = ''b''" "str_strip ''x'' = ''x''"
    "str_strip ''y'' = ''y''" "str_strip ''z'' = ''z''"
    by (simp_all add: str_strip_def isspace_def)
  from whitespace_only_contributes_nothing [OF a b,
      where doc = "\<lparr>paragraphs = [], tables = []\<rparr>" and ps = "[''a'']" and qs = "[''b'']"
        and rs = "[]" and cs = "[''x'']" and ds = "[''y'']" and rs' = "[]" and text_parts = "[]"
        and es = "[]" and fs = "[]" and tg = "''t''" and es' = "[]" and ta = "Some ''z''"
        and tx = "Some ''z''"]
    a b c
  show ?thesis
    by (simp add: structured_text_def strip_if_text_def)
qed

text \<open>
  C8. When the three tiers collect no item, \<open>_extract_formatted_text\<close> returns the empty
  string, which does not start with \<open>Error\<close>.
\<close>

theorem empty_result_is_empty_string:
  assumes "tier1 root = []" and "tier2 root [] = []" and "tier3 root [] = []"
  shows "extract_formatted_text root = []
         \<and> \<not> str_startswith (extract_formatted_text root) ''Error''"
  using assms by (simp add: extract_formatted_text_def str_startswith_def)

theorem empty_result_is_empty_string_witness:
  "tier1 tree_blank = [] \<and> tier2 tree_blank [] = [] \<and> tier3 tree_blank [] = []
   \<and> extract_formatted_text tree_blank = []"
proof -
  have a: "tier1 tree_blank = []"
    by (simp add: tier1_def tree_blank_def findall_w_p_def w_p_def truthy_str_def
        str_strip_def isspace_def)
  have b: "tier2 tree_blank [] = []"
    by (simp add: tier2_def tree_blank_def truthy_str_def str_strip_def isspace_def)
  have c: "tier3 tree_blank [] = []"
    by (simp add: tier3_def tree_blank_def strip_if_text_def str_strip_def isspace_def)
  from empty_result_is_empty_string [OF a b c] a b c show ?thesis by simp
qed

text \<open>
  C10. When \<open>os.stat\<close> raises, \<open>process_document\<close> returns the empty content and a
  metadata map whose only key is \<open>error\<close>: \<open>content_length\<close> and
  \<open>extraction_success\<close> are absent, and the result is the same whatever python-docx and
  \<open>zipfile\<close> would have read, no extraction being run.
\<close>

theorem metadata_failure_short_circuit:
  assumes "os_stat e file_path = Inl ex"
  shows "process_document e file_path =
           Inr ('''', [''error'' \<mapsto> PyStr (''Could not get metadata: '' @ str_e ex)])
         \<and> [''error'' \<mapsto> PyStr (''Could not get metadata: '' @ str_e ex)] ''content_length'' = None
         \<and> [''error'' \<mapsto> PyStr (''Could not get metadata: '' @ str_e ex)] ''extraction_success''
             = None
         \<and> process_document (e\<lparr>docx_Document := d, zipfile_ZipFile := z\<rparr>) file_path =
             process_document e file_path"
  using assms by (simp add: process_document_def get_document_metadata_def)

theorem metadata_failure_short_circuit_witness:
  "os_stat env_missing ''missing.docx'' = Inl (Exception ''[Errno 2] No such file or directory'')
   \<and> process_document env_missing ''missing.docx'' =
       Inr ('''', [''error'' \<mapsto>
                   PyStr ''Could not get metadata: [Errno 2] No such file or directory''])"
proof -
  have a: "os_stat env_missing ''missing.docx'' =
      Inl (Exception ''[Errno 2] No such file or directory'')"
    by (simp add: env_missing_def)
  from metadata_failure_short_circuit [OF a] a show ?thesis by simp
qed

end
